theory Spec2Isabelle
  imports Main "HOL-Library.Word" "HOL-Library.Sublist"
begin

section \<open>Data model\<close>

text \<open>
  Go strings and byte slices are byte sequences; \<open>[]byte(password)\<close> is the identity on
  them. Go's \<open>int\<close> (the appID) and \<open>time.Duration\<close> are never used in arithmetic by the
  code modelled here, so they are integers. \<open>primitive.ObjectID\<close> is a \<open>[12]byte\<close>;
  \<open>primitive.NilObjectID\<close> is its zero value.
\<close>

type_synonym bytes = string
type_synonym ObjectID = "8 word list"

definition NilObjectID :: ObjectID where
  "NilObjectID = replicate 12 0"

text \<open>
  Modelled from the spec: package \<open>sso/internal/models\<close> is not among the sources. A User
  has an identifier, an email and a password hash (the fields \<open>Email\<close> and \<open>PassHash\<close>
  are the ones the storage code sets); an App has an integer identifier, a display name
  and a signing secret. The App's identifier is named \<open>AppID\<close> here, to keep it apart from
  the User's \<open>ID\<close>.
\<close>

record User =
  ID :: ObjectID
  Email :: string
  PassHash :: bytes

record App =
  AppID :: int
  Name :: string
  Secret :: string

subsection \<open>Errors\<close>

text \<open>
  Go's \<open>error\<close> values. The first three constructors are the sentinels declared in
  \<open>auth.go\<close> with \<open>errors.New\<close>. The next three are the sentinels of package
  \<open>sso/internal/storage\<close>, which is not among the sources (Modelled from the spec: the
  store's conditions UserNotFound, UserExists and AppNotFound); each \<open>errors.New\<close> value
  is distinct from every other. \<open>foreign\<close> is any other error value, carrying its text
  (errors of the database driver, of bcrypt and of the token package).
  \<open>wrapError op err\<close> is \<open>fmt.Errorf("%s: %w", op, err)\<close>.
\<close>

datatype error =
    ErrInvalidCredentials
  | ErrInvalidAppID
  | ErrUserExists
  | storage_ErrUserNotFound
  | storage_ErrUserExists
  | storage_ErrAppNotFound
  | foreign string
  | wrapError string error

text \<open>
  \<open>errors.Is(err, target)\<close> walks the chain of wrapped errors and compares each link
  with the target. Every target in this program is a sentinel; a freshly allocated
  wrapper is never identical to one, so only the innermost link can match.
\<close>

fun errors_Is :: "error \<Rightarrow> error \<Rightarrow> bool" where
  "errors_Is (wrapError op' err) target = errors_Is err target"
| "errors_Is err target = (err = target)"

subsection \<open>Collaborators and their calls\<close>

text \<open>
  The collaborators are stateful (a database, a clock, a source of salt), so each is a
  function from the state of the outside world to a result and a new state. A Go function
  returning \<open>(T, error)\<close> returns a pair whose second component is \<open>None\<close> for \<open>nil\<close>.
  The context \<open>ctx\<close>, which is only handed on, is part of that state. Every call the
  engine makes on a collaborator, and every call the transport adapter makes on the
  engine, is recorded, in order, in \<open>calls\<close>. A collaborator is taken to return: one that
  panics or blocks for ever is outside the model. Logging is not modelled.
\<close>

datatype call =
    UserProvider_UserByEmail string
  | UserProvider_IsAdmin ObjectID
  | UserSaver_SaveUser string bytes
  | AppProvider_App int
  | bcrypt_CompareHashAndPassword bytes bytes
  | bcrypt_GenerateFromPassword bytes int
  | jwt_NewToken User App int
  | Auth_Login_call string string int
  | Auth_IsAdmin_call ObjectID

record 's world =
  store :: 's
  calls :: "call list"

text \<open>The struct \<open>Auth\<close>: the three interfaces, flattened to their methods, and the TTL.\<close>

record 's Auth =
  SaveUser :: "string \<Rightarrow> bytes \<Rightarrow> 's \<Rightarrow> (ObjectID \<times> error option) \<times> 's"
  UserByEmail :: "string \<Rightarrow> 's \<Rightarrow> (User \<times> error option) \<times> 's"
  IsAdmin :: "ObjectID \<Rightarrow> 's \<Rightarrow> (bool \<times> error option) \<times> 's"
  App :: "int \<Rightarrow> 's \<Rightarrow> (App \<times> error option) \<times> 's"
  tokenTTL :: int

text \<open>
  The functions of packages outside the sources (\<open>golang.org/x/crypto/bcrypt\<close>,
  \<open>sso/internal/jwt\<close>, the driver's \<open>bson/primitive\<close>) are parameters.
  \<open>CompareHashAndPassword\<close> returns \<open>nil\<close> exactly when the password matches the hash.
\<close>

record 's pkgs =
  CompareHashAndPassword :: "bytes \<Rightarrow> bytes \<Rightarrow> error option"
  GenerateFromPassword :: "bytes \<Rightarrow> int \<Rightarrow> 's \<Rightarrow> (bytes \<times> error option) \<times> 's"
  NewToken :: "User \<Rightarrow> App \<Rightarrow> int \<Rightarrow> 's \<Rightarrow> (string \<times> error option) \<times> 's"
  ObjectIDFromHex :: "string \<Rightarrow> ObjectID \<times> error option"
  Hex :: "ObjectID \<Rightarrow> string"

definition DefaultCost :: int where
  "DefaultCost = 10"

definition invoke :: "call \<Rightarrow> ('s \<Rightarrow> 'r \<times> 's) \<Rightarrow> 's world \<Rightarrow> 'r \<times> 's world" where
  "invoke c f w =
     (case f (store w) of (r, s') \<Rightarrow> (r, \<lparr>store = s', calls = calls w @ [c]\<rparr>))"

section \<open>The engine (auth.go)\<close>

definition Auth_Login ::
  "'s pkgs \<Rightarrow> 's Auth \<Rightarrow> string \<Rightarrow> string \<Rightarrow> int \<Rightarrow> 's world
     \<Rightarrow> (string \<times> error option) \<times> 's world" where
  "Auth_Login p a email password appID w0 =
     (case invoke (UserProvider_UserByEmail email) (UserByEmail a email) w0 of
        ((user, Some err), w1) \<Rightarrow>
          if errors_Is err storage_ErrUserNotFound
          then (('''', Some (wrapError ''Auth.Login'' ErrInvalidCredentials)), w1)
          else (('''', Some (wrapError ''Auth.Login'' err)), w1)
      | ((user, None), w1) \<Rightarrow>
          (case invoke (bcrypt_CompareHashAndPassword (PassHash user) password)
                  (\<lambda>s. (CompareHashAndPassword p (PassHash user) password, s)) w1 of
             (Some err, w2) \<Rightarrow>
               (('''', Some (wrapError ''Auth.Login'' ErrInvalidCredentials)), w2)
           | (None, w2) \<Rightarrow>
               (case invoke (AppProvider_App appID) (App a appID) w2 of
                  ((app, Some err), w3) \<Rightarrow>
                    (('''', Some (wrapError ''Auth.Login'' err)), w3)
                | ((app, None), w3) \<Rightarrow>
                    (case invoke (jwt_NewToken user app (tokenTTL a))
                            (NewToken p user app (tokenTTL a)) w3 of
                       ((token, Some err), w4) \<Rightarrow>
                         (('''', Some (wrapError ''Auth.Login'' err)), w4)
                     | ((token, None), w4) \<Rightarrow> ((token, None), w4)))))"

definition Auth_RegisterNewUser ::
  "'s pkgs \<Rightarrow> 's Auth \<Rightarrow> string \<Rightarrow> string \<Rightarrow> 's world
     \<Rightarrow> (ObjectID \<times> error option) \<times> 's world" where
  "Auth_RegisterNewUser p a email pass w0 =
     (case invoke (bcrypt_GenerateFromPassword pass DefaultCost)
             (GenerateFromPassword p pass DefaultCost) w0 of
        ((passHash, Some err), w1) \<Rightarrow>
          ((NilObjectID, Some (wrapError ''auth.RegisterNewUser'' err)), w1)
      | ((passHash, None), w1) \<Rightarrow>
          (case invoke (UserSaver_SaveUser email passHash) (SaveUser a email passHash) w1 of
             ((id', Some err), w2) \<Rightarrow>
               if errors_Is err storage_ErrUserExists
               then ((NilObjectID, Some (wrapError ''auth.RegisterNewUser'' ErrUserExists)), w2)
               else ((NilObjectID, Some (wrapError ''auth.RegisterNewUser'' err)), w2)
           | ((id', None), w2) \<Rightarrow> ((id', None), w2)))"

definition Auth_IsAdmin ::
  "'s Auth \<Rightarrow> ObjectID \<Rightarrow> 's world \<Rightarrow> (bool \<times> error option) \<times> 's world" where
  "Auth_IsAdmin a userID w0 =
     (case invoke (UserProvider_IsAdmin userID) (IsAdmin a userID) w0 of
        ((isAdmin, Some err), w1) \<Rightarrow>
          ((False, Some (wrapError ''auth.IsAdmin'' ErrInvalidAppID)), w1)
      | ((isAdmin, None), w1) \<Rightarrow> ((isAdmin, None), w1))"

section \<open>The transport adapter (package grpc/auth)\<close>

text \<open>
  \<open>status.Error(code, msg)\<close> with the codes the two handlers use. A handler returns a
  pointer to a response (\<open>None\<close> for \<open>nil\<close>) and an error. The request getters of the
  generated messages return the zero value of a missing field; \<open>int(req.GetAppId())\<close>
  converts a narrower integer and keeps its value. The field \<open>auth\<close> of \<open>serverAPI\<close> is
  the engine above.
\<close>

datatype codes = InvalidArgument | Internal

datatype status = status_Error codes string

record LoginRequest =
  GetEmail :: string
  GetPassword :: string
  GetAppId :: int

datatype LoginResponse = LoginResponse (Token: string)

record IsAdminRequest =
  GetUserId :: string

datatype IsAdminResponse = IsAdminResponse bool

definition emptyValue :: int where
  "emptyValue = 0"

definition serverAPI_Login ::
  "'s pkgs \<Rightarrow> 's Auth \<Rightarrow> LoginRequest \<Rightarrow> 's world
     \<Rightarrow> (LoginResponse option \<times> status option) \<times> 's world" where
  "serverAPI_Login p a req w0 =
     (if GetEmail req = '''' then
        ((None, Some (status_Error InvalidArgument ''email is required'')), w0)
      else if GetPassword req = '''' then
        ((None, Some (status_Error InvalidArgument ''password is required'')), w0)
      else if GetAppId req = emptyValue then
        ((None, Some (status_Error InvalidArgument ''app_id is required'')), w0)
      else
        (case Auth_Login p a (GetEmail req) (GetPassword req) (GetAppId req)
                (w0\<lparr>calls := calls w0 @
                   [Auth_Login_call (GetEmail req) (GetPassword req) (GetAppId req)]\<rparr>) of
           ((token, Some err), w1) \<Rightarrow>
             if errors_Is err ErrInvalidCredentials
             then ((None, Some (status_Error InvalidArgument ''invalid argument'')), w1)
             else ((None, Some (status_Error Internal ''internal error'')), w1)
         | ((token, None), w1) \<Rightarrow> ((Some (LoginResponse token), None), w1)))"

definition serverAPI_IsAdmin ::
  "'s pkgs \<Rightarrow> 's Auth \<Rightarrow> IsAdminRequest \<Rightarrow> 's world
     \<Rightarrow> (IsAdminResponse option \<times> status option) \<times> 's world" where
  "serverAPI_IsAdmin p a req w0 =
     (if GetUserId req = Hex p NilObjectID then
        ((None, Some (status_Error InvalidArgument ''user_id is required'')), w0)
      else
        (case ObjectIDFromHex p (GetUserId req) of
           (userID, Some err) \<Rightarrow>
             ((None, Some (status_Error InvalidArgument ''invalid user_id'')), w0)
         | (userID, None) \<Rightarrow>
             (case Auth_IsAdmin a userID
                     (w0\<lparr>calls := calls w0 @ [Auth_IsAdmin_call userID]\<rparr>) of
                ((isAdmin, Some err), w1) \<Rightarrow>
                  ((None, Some (status_Error Internal ''internal error'')), w1)
              | ((isAdmin, None), w1) \<Rightarrow>
                  ((Some (IsAdminResponse isAdmin), None), w1))))"

section \<open>The store's SaveUser (package storage/mongodb)\<close>

text \<open>
  The driver's \<open>InsertOne\<close> is a parameter. Its errors are the driver's own:
  a \<open>mongo.WriteException\<close> with its write errors, or any other error; each carries the
  text its \<open>Error()\<close> returns. \<open>InsertedID\<close> is an \<open>interface{}\<close>; the type assertion
  \<open>result.InsertedID.(primitive.ObjectID)\<close> panics on any other value, and a panic is
  the result \<open>None\<close>.
\<close>

record WriteError =
  Code :: int
  Message :: string

datatype mongo_error =
    WriteException "WriteError list" string
  | mongo_other string

fun mongo_Error :: "mongo_error \<Rightarrow> string" where
  "mongo_Error (WriteException wes txt) = txt"
| "mongo_Error (mongo_other txt) = txt"

datatype InsertedID = id_ObjectID ObjectID | id_other

definition strings_Contains :: "string \<Rightarrow> string \<Rightarrow> bool" where
  "strings_Contains s substr = sublist substr s"

text \<open>The loop over \<open>writeException.WriteErrors\<close>: does one of them have code 11000?\<close>

fun has_duplicate_key :: "WriteError list \<Rightarrow> bool" where
  "has_duplicate_key [] = False"
| "has_duplicate_key (we # wes) = (if Code we = 11000 then True else has_duplicate_key wes)"

definition Storage_SaveUser ::
  "(User \<Rightarrow> 's \<Rightarrow> (InsertedID \<times> mongo_error option) \<times> 's) \<Rightarrow> string \<Rightarrow> bytes \<Rightarrow> 's
     \<Rightarrow> ((ObjectID \<times> error option) \<times> 's) option" where
  "Storage_SaveUser InsertOne email passHash s0 =
     (case InsertOne \<lparr>ID = NilObjectID, Email = email, PassHash = passHash\<rparr> s0 of
        ((insertedID, Some err), s1) \<Rightarrow>
          if (case err of WriteException wes txt \<Rightarrow> has_duplicate_key wes | _ \<Rightarrow> False)
          then Some ((NilObjectID,
                      Some (wrapError ''storage.mongodb.SaveUser'' storage_ErrUserExists)), s1)
          else if strings_Contains (mongo_Error err) ''users_uc_email''
          then Some ((NilObjectID,
                      Some (wrapError ''storage.mongodb.SaveUser'' storage_ErrUserExists)), s1)
          else Some ((NilObjectID,
                      Some (wrapError ''storage.mongodb.SaveUser'' (foreign (mongo_Error err)))), s1)
      | ((id_ObjectID oid, None), s1) \<Rightarrow> Some ((oid, None), s1)
      | ((id_other, None), s1) \<Rightarrow> None)"

section \<open>An in-memory stand-in for the collaborators\<close>

text \<open>
  One registered user and one registered app, used to run the model on concrete inputs.
  The stand-in hasher stores the password itself; the outside world has no state.
\<close>

definition demo_user :: User where
  "demo_user = \<lparr>ID = replicate 12 1, Email = ''a@x.com'', PassHash = ''secret1''\<rparr>"

definition demo_app :: App where
  "demo_app = \<lparr>AppID = 42, Name = ''shop'', Secret = ''k''\<rparr>"

definition demo_Auth :: "unit Auth" where
  "demo_Auth = \<lparr>
     SaveUser = (\<lambda>email passHash s.
       if email = ''a@x.com''
       then ((NilObjectID, Some (wrapError ''storage.mongodb.SaveUser'' storage_ErrUserExists)), s)
       else ((replicate 12 2, None), s)),
     UserByEmail = (\<lambda>email s.
       if email = ''a@x.com'' then ((demo_user, None), s)
       else ((\<lparr>ID = NilObjectID, Email = '''', PassHash = ''''\<rparr>,
              Some (wrapError ''storage.mongodb.User'' storage_ErrUserNotFound)), s)),
     IsAdmin = (\<lambda>userID s.
       if userID = replicate 12 1 then ((False, None), s)
       else ((False, Some (wrapError ''storage.mongodb.IsAdmin'' storage_ErrUserNotFound)), s)),
     App = (\<lambda>appID s.
       if appID = 42 then ((demo_app, None), s)
       else ((\<lparr>AppID = 0, Name = '''', Secret = ''''\<rparr>,
              Some (wrapError ''storage.mongodb.App'' storage_ErrAppNotFound)), s)),
     tokenTTL = 3600\<rparr>"

definition demo_pkgs :: "unit pkgs" where
  "demo_pkgs = \<lparr>
     CompareHashAndPassword = (\<lambda>hash password.
       if hash = password then None else Some (foreign ''mismatch'')),
     GenerateFromPassword = (\<lambda>password cost s.
       if length password \<le> 72 then ((password, None), s)
       else (('''', Some (foreign ''too long'')), s)),
     NewToken = (\<lambda>user app ttl s. ((''token'', None), s)),
     ObjectIDFromHex = (\<lambda>h.
       if h = ''000000000000000000000000'' then (NilObjectID, None)
       else if h = ''010101010101010101010101'' then (replicate 12 1, None)
       else (NilObjectID, Some (foreign ''invalid hex''))),
     Hex = (\<lambda>oid. if oid = NilObjectID then ''000000000000000000000000''
                    else ''010101010101010101010101'')\<rparr>"

definition w_init :: "unit world" where
  "w_init = \<lparr>store = (), calls = []\<rparr>"

text \<open>The calls made between an earlier world and a later one.\<close>

definition new_calls :: "'s world \<Rightarrow> 's world \<Rightarrow> call list" where
  "new_calls w w' = drop (length (calls w)) (calls w')"

section \<open>Properties of error chains\<close>

lemma errors_Is_unique: "errors_Is e t \<Longrightarrow> errors_Is e t' \<Longrightarrow> t = t'"
  by (induction e t rule: errors_Is.induct) auto

section \<open>Login\<close>

text \<open>
  C1. A Login that fails because the store does not know the email and a Login that fails
  because the password does not match the stored hash return the same values: the empty
  token and \<open>ErrInvalidCredentials\<close> wrapped with the operation name. The two calls may
  differ in every argument and in the state of the world.
\<close>

theorem Login_invalid_credentials_same_kind:
  assumes "UserByEmail a email1 (store w1) = ((u1, Some err1), s1)"
      and "errors_Is err1 storage_ErrUserNotFound"
      and "UserByEmail a email2 (store w2) = ((u2, None), s2)"
      and "CompareHashAndPassword p (PassHash u2) password2 = Some err2"
  shows "fst (Auth_Login p a email1 password1 appID1 w1)
           = ('''', Some (wrapError ''Auth.Login'' ErrInvalidCredentials))
       \<and> fst (Auth_Login p a email2 password2 appID2 w2)
           = ('''', Some (wrapError ''Auth.Login'' ErrInvalidCredentials))"
  using assms by (simp add: Auth_Login_def invoke_def)

theorem Login_invalid_credentials_same_kind_witness:
  "fst (Auth_Login demo_pkgs demo_Auth ''b@x.com'' ''secret1'' 42 w_init)
     = ('''', Some (wrapError ''Auth.Login'' ErrInvalidCredentials))
   \<and> fst (Auth_Login demo_pkgs demo_Auth ''a@x.com'' ''wrong'' 42 w_init)
     = ('''', Some (wrapError ''Auth.Login'' ErrInvalidCredentials))"
proof -
  have h1: "UserByEmail demo_Auth ''b@x.com'' (store w_init)
              = ((\<lparr>ID = NilObjectID, Email = '''', PassHash = ''''\<rparr>,
                  Some (wrapError ''storage.mongodb.User'' storage_ErrUserNotFound)), ())"
    by (simp add: demo_Auth_def)
  have h2: "errors_Is (wrapError ''storage.mongodb.User'' storage_ErrUserNotFound)
              storage_ErrUserNotFound"
    by simp
  have h3: "UserByEmail demo_Auth ''a@x.com'' (store w_init) = ((demo_user, None), ())"
    by (simp add: demo_Auth_def)
  have h4: "CompareHashAndPassword demo_pkgs (PassHash demo_user) ''wrong''
              = Some (foreign ''mismatch'')"
    by (simp add: demo_pkgs_def demo_user_def)
  show ?thesis by (rule Login_invalid_credentials_same_kind [OF h1 h2 h3 h4])
qed



text \<open>
  C4. When the credentials are valid and the app registry answers with the AppNotFound
  condition, Login returns the registry's error wrapped with the operation name: the
  caller recognises it as AppNotFound, and it is not \<open>ErrInvalidCredentials\<close>.
\<close>

theorem Login_unknown_app_surfaced:
  assumes "UserByEmail a email (store w) = ((u, None), s1)"
      and "CompareHashAndPassword p (PassHash u) password = None"
      and "App a appID s1 = ((ap, Some err), s2)"
      and "errors_Is err storage_ErrAppNotFound"
  shows "fst (Auth_Login p a email password appID w)
           = ('''', Some (wrapError ''Auth.Login'' err))
       \<and> errors_Is (wrapError ''Auth.Login'' err) storage_ErrAppNotFound
       \<and> \<not> errors_Is (wrapError ''Auth.Login'' err) ErrInvalidCredentials"
proof -
  have "fst (Auth_Login p a email password appID w)
          = ('''', Some (wrapError ''Auth.Login'' err))"
    using assms(1-3) by (simp add: Auth_Login_def invoke_def)
  moreover have "errors_Is (wrapError ''Auth.Login'' err) storage_ErrAppNotFound"
    using assms(4) by simp
  moreover have "\<not> errors_Is (wrapError ''Auth.Login'' err) ErrInvalidCredentials"
    using assms(4) errors_Is_unique [of err storage_ErrAppNotFound ErrInvalidCredentials]
    by auto
  ultimately show ?thesis by blast
qed

theorem Login_unknown_app_surfaced_witness:
  "fst (Auth_Login demo_pkgs demo_Auth ''a@x.com'' ''secret1'' 7 w_init)
     = ('''', Some (wrapError ''Auth.Login''
                      (wrapError ''storage.mongodb.App'' storage_ErrAppNotFound)))
   \<and> errors_Is (wrapError ''Auth.Login''
                 (wrapError ''storage.mongodb.App'' storage_ErrAppNotFound))
        storage_ErrAppNotFound
   \<and> \<not> errors_Is (wrapError ''Auth.Login''
                   (wrapError ''storage.mongodb.App'' storage_ErrAppNotFound))
        ErrInvalidCredentials"
proof -
  have h1: "UserByEmail demo_Auth ''a@x.com'' (store w_init) = ((demo_user, None), ())"
    by (simp add: demo_Auth_def)
  have h2: "CompareHashAndPassword demo_pkgs (PassHash demo_user) ''secret1'' = None"
    by (simp add: demo_pkgs_def demo_user_def)
  have h3: "App demo_Auth 7 ()
              = ((\<lparr>AppID = 0, Name = '''', Secret = ''''\<rparr>,
                  Some (wrapError ''storage.mongodb.App'' storage_ErrAppNotFound)), ())"
    by (simp add: demo_Auth_def)
  have h4: "errors_Is (wrapError ''storage.mongodb.App'' storage_ErrAppNotFound)
              storage_ErrAppNotFound"
    by simp
  show ?thesis by (rule Login_unknown_app_surfaced [OF h1 h2 h3 h4])
qed

text \<open>
  What the transport adapter makes of it: the status \<open>Internal\<close>, which differs from the
  \<open>InvalidArgument\<close> it returns for invalid credentials.
\<close>

lemma serverAPI_Login_unknown_app:
  assumes "GetEmail req \<noteq> ''''" and "GetPassword req \<noteq> ''''" and "GetAppId req \<noteq> 0"
      and "UserByEmail a (GetEmail req) (store w) = ((u, None), s1)"
      and "CompareHashAndPassword p (PassHash u) (GetPassword req) = None"
      and "App a (GetAppId req) s1 = ((ap, Some err), s2)"
      and "errors_Is err storage_ErrAppNotFound"
  shows "fst (serverAPI_Login p a req w)
           = (None, Some (status_Error Internal ''internal error''))"
proof -
  have "\<not> errors_Is err ErrInvalidCredentials"
    using assms(7) errors_Is_unique [of err storage_ErrAppNotFound ErrInvalidCredentials]
    by auto
  then show ?thesis
    using assms(1-6)
    by (simp add: serverAPI_Login_def emptyValue_def Auth_Login_def invoke_def)
qed

text \<open>
  C7. A Login that succeeds has resolved the app and returns the token that
  \<open>jwt.NewToken\<close> built for the resolved user and app; a call of \<open>jwt.NewToken\<close> is
  always the fourth call, after the app registry has answered without error; and when
  the registry answers with an error, Login returns the empty token with that error and
  \<open>jwt.NewToken\<close> is not called.
\<close>

theorem Login_token_only_after_app:
  "(snd (fst (Auth_Login p a email password appID w)) = None
      \<longrightarrow> (\<exists>u ap s1 s2 s3.
             UserByEmail a email (store w) = ((u, None), s1)
           \<and> CompareHashAndPassword p (PassHash u) password = None
           \<and> App a appID s1 = ((ap, None), s2)
           \<and> NewToken p u ap (tokenTTL a) s2
               = ((fst (fst (Auth_Login p a email password appID w)), None), s3)))
   \<and> (jwt_NewToken u' ap' t \<in> set (new_calls w (snd (Auth_Login p a email password appID w)))
      \<longrightarrow> (\<exists>s1 s2.
             UserByEmail a email (store w) = ((u', None), s1)
           \<and> App a appID s1 = ((ap', None), s2)
           \<and> new_calls w (snd (Auth_Login p a email password appID w))
               = [UserProvider_UserByEmail email,
                  bcrypt_CompareHashAndPassword (PassHash u') password,
                  AppProvider_App appID,
                  jwt_NewToken u' ap' t]))
   \<and> (UserByEmail a email (store w) = ((v, None), r1)
        \<and> CompareHashAndPassword p (PassHash v) password = None
        \<and> App a appID r1 = ((bp, Some err), r2)
      \<longrightarrow> fst (Auth_Login p a email password appID w)
            = ('''', Some (wrapError ''Auth.Login'' err))
        \<and> new_calls w (snd (Auth_Login p a email password appID w))
            = [UserProvider_UserByEmail email,
               bcrypt_CompareHashAndPassword (PassHash v) password,
               AppProvider_App appID])"
proof (intro conjI)
  show "snd (fst (Auth_Login p a email password appID w)) = None
      \<longrightarrow> (\<exists>u ap s1 s2 s3.
             UserByEmail a email (store w) = ((u, None), s1)
           \<and> CompareHashAndPassword p (PassHash u) password = None
           \<and> App a appID s1 = ((ap, None), s2)
           \<and> NewToken p u ap (tokenTTL a) s2
               = ((fst (fst (Auth_Login p a email password appID w)), None), s3))"
    by (auto simp: Auth_Login_def invoke_def split: prod.splits option.splits if_splits)
next
  show "jwt_NewToken u' ap' t \<in> set (new_calls w (snd (Auth_Login p a email password appID w)))
      \<longrightarrow> (\<exists>s1 s2.
             UserByEmail a email (store w) = ((u', None), s1)
           \<and> App a appID s1 = ((ap', None), s2)
           \<and> new_calls w (snd (Auth_Login p a email password appID w))
               = [UserProvider_UserByEmail email,
                  bcrypt_CompareHashAndPassword (PassHash u') password,
                  AppProvider_App appID,
                  jwt_NewToken u' ap' t])"
    by (auto simp: Auth_Login_def invoke_def new_calls_def
             split: prod.splits option.splits if_splits)
next
  show "UserByEmail a email (store w) = ((v, None), r1)
        \<and> CompareHashAndPassword p (PassHash v) password = None
        \<and> App a appID r1 = ((bp, Some err), r2)
      \<longrightarrow> fst (Auth_Login p a email password appID w)
            = ('''', Some (wrapError ''Auth.Login'' err))
        \<and> new_calls w (snd (Auth_Login p a email password appID w))
            = [UserProvider_UserByEmail email,
               bcrypt_CompareHashAndPassword (PassHash v) password,
               AppProvider_App appID]"
    by (simp add: Auth_Login_def invoke_def new_calls_def)
qed

theorem Login_token_only_after_app_witness:
  "snd (fst (Auth_Login demo_pkgs demo_Auth ''a@x.com'' ''secret1'' 42 w_init)) = None
   \<and> (\<exists>u ap s1 s2 s3.
        UserByEmail demo_Auth ''a@x.com'' (store w_init) = ((u, None), s1)
      \<and> CompareHashAndPassword demo_pkgs (PassHash u) ''secret1'' = None
      \<and> App demo_Auth 42 s1 = ((ap, None), s2)
      \<and> NewToken demo_pkgs u ap (tokenTTL demo_Auth) s2
          = ((fst (fst (Auth_Login demo_pkgs demo_Auth ''a@x.com'' ''secret1'' 42 w_init)),
              None), s3))"
proof -
  have h: "snd (fst (Auth_Login demo_pkgs demo_Auth ''a@x.com'' ''secret1'' 42 w_init)) = None"
    by (simp add: Auth_Login_def invoke_def demo_Auth_def demo_pkgs_def demo_user_def
                  w_init_def)
  from h Login_token_only_after_app
         [where p = demo_pkgs and a = demo_Auth and email = "''a@x.com''"
            and password = "''secret1''" and appID = 42 and w = w_init]
  show ?thesis by blast
qed

text \<open>
  C8. Login never calls \<open>SaveUser\<close>, the only writing method of the store's interfaces,
  and its result and the world it leaves do not depend on what \<open>SaveUser\<close> would do. Each
  of its calls is the user lookup, the hash comparison, the app lookup or the building
  of the token.
\<close>

theorem Login_no_store_write:
  "UserSaver_SaveUser e h \<notin> set (new_calls w (snd (Auth_Login p a email password appID w)))
   \<and> Auth_Login p (a\<lparr>SaveUser := f\<rparr>) email password appID w
       = Auth_Login p a email password appID w
   \<and> (\<forall>c \<in> set (new_calls w (snd (Auth_Login p a email password appID w))).
        c = UserProvider_UserByEmail email
      \<or> c = AppProvider_App appID
      \<or> (\<exists>hash. c = bcrypt_CompareHashAndPassword hash password)
      \<or> (\<exists>user app. c = jwt_NewToken user app (tokenTTL a)))"
proof (intro conjI)
  show "UserSaver_SaveUser e h
          \<notin> set (new_calls w (snd (Auth_Login p a email password appID w)))"
    by (auto simp: Auth_Login_def invoke_def new_calls_def
             split: prod.splits option.splits if_splits)
next
  show "Auth_Login p (a\<lparr>SaveUser := f\<rparr>) email password appID w
          = Auth_Login p a email password appID w"
    by (auto simp: Auth_Login_def split: prod.splits option.splits)
next
  show "\<forall>c \<in> set (new_calls w (snd (Auth_Login p a email password appID w))).
        c = UserProvider_UserByEmail email
      \<or> c = AppProvider_App appID
      \<or> (\<exists>hash. c = bcrypt_CompareHashAndPassword hash password)
      \<or> (\<exists>user app. c = jwt_NewToken user app (tokenTTL a))"
    by (auto simp: Auth_Login_def invoke_def new_calls_def
             split: prod.splits option.splits if_splits)
qed

theorem Login_no_store_write_witness:
  "AppProvider_App 42
     \<in> set (new_calls w_init (snd (Auth_Login demo_pkgs demo_Auth ''a@x.com'' ''secret1'' 42 w_init)))
   \<and> UserSaver_SaveUser ''a@x.com'' ''secret1''
     \<notin> set (new_calls w_init (snd (Auth_Login demo_pkgs demo_Auth ''a@x.com'' ''secret1'' 42 w_init)))
   \<and> Auth_Login demo_pkgs (demo_Auth\<lparr>SaveUser := \<lambda>email passHash s. ((NilObjectID, None), s)\<rparr>)
         ''a@x.com'' ''secret1'' 42 w_init
       = Auth_Login demo_pkgs demo_Auth ''a@x.com'' ''secret1'' 42 w_init"
proof -
  have h: "AppProvider_App 42
     \<in> set (new_calls w_init (snd (Auth_Login demo_pkgs demo_Auth ''a@x.com'' ''secret1'' 42 w_init)))"
    by (simp add: Auth_Login_def invoke_def new_calls_def demo_Auth_def demo_pkgs_def
                  demo_user_def w_init_def)
  from h Login_no_store_write
         [where p = demo_pkgs and a = demo_Auth and email = "''a@x.com''"
            and password = "''secret1''" and appID = 42 and w = w_init
            and e = "''a@x.com''" and h = "''secret1''"
            and f = "\<lambda>email passHash s. ((NilObjectID, None), s)"]
  show ?thesis by blast
qed

text \<open>
  C2. It is the transport adapter's Login, not the engine's, that rejects a request
  whose app_id is 0: it returns an invalid-argument status (with the message
  \<open>app_id is required\<close> when the email and the password are present) and leaves the
  world as it was, so the engine is not called and no store lookup is made. The engine's
  own Login has no check of the appID. Called with appID 0 it looks the user up first; an
  email the store does not know fails with \<open>ErrInvalidCredentials\<close>; with valid
  credentials it hands appID 0 to the app registry as its third call, and when the
  registry resolves it and the token is built, it returns that token.
\<close>

theorem Login_empty_app_id_rejected_by_adapter_only:
  "(GetAppId req = 0
      \<longrightarrow> (\<exists>msg. serverAPI_Login p a req w
                   = ((None, Some (status_Error InvalidArgument msg)), w)))
   \<and> (GetAppId req = 0 \<and> GetEmail req \<noteq> '''' \<and> GetPassword req \<noteq> ''''
      \<longrightarrow> serverAPI_Login p a req w
            = ((None, Some (status_Error InvalidArgument ''app_id is required'')), w))
   \<and> prefix [UserProvider_UserByEmail email]
        (new_calls w (snd (Auth_Login p a email password 0 w)))
   \<and> (UserByEmail a email (store w) = ((u0, Some e0), s0)
        \<and> errors_Is e0 storage_ErrUserNotFound
      \<longrightarrow> Auth_Login p a email password 0 w
            = (('''', Some (wrapError ''Auth.Login'' ErrInvalidCredentials)),
               \<lparr>store = s0, calls = calls w @ [UserProvider_UserByEmail email]\<rparr>))
   \<and> (UserByEmail a email (store w) = ((u, None), s1)
        \<and> CompareHashAndPassword p (PassHash u) password = None
      \<longrightarrow> prefix [UserProvider_UserByEmail email,
                  bcrypt_CompareHashAndPassword (PassHash u) password,
                  AppProvider_App 0]
             (new_calls w (snd (Auth_Login p a email password 0 w))))
   \<and> (UserByEmail a email (store w) = ((u, None), s1)
        \<and> CompareHashAndPassword p (PassHash u) password = None
        \<and> App a 0 s1 = ((ap, None), s2)
        \<and> NewToken p u ap (tokenTTL a) s2 = ((token, None), s3)
      \<longrightarrow> Auth_Login p a email password 0 w
            = ((token, None),
               \<lparr>store = s3,
                calls = calls w @ [UserProvider_UserByEmail email,
                                   bcrypt_CompareHashAndPassword (PassHash u) password,
                                   AppProvider_App 0,
                                   jwt_NewToken u ap (tokenTTL a)]\<rparr>))"
proof (intro conjI)
  show "GetAppId req = 0
      \<longrightarrow> (\<exists>msg. serverAPI_Login p a req w
                   = ((None, Some (status_Error InvalidArgument msg)), w))"
    by (simp add: serverAPI_Login_def emptyValue_def)
next
  show "GetAppId req = 0 \<and> GetEmail req \<noteq> '''' \<and> GetPassword req \<noteq> ''''
      \<longrightarrow> serverAPI_Login p a req w
            = ((None, Some (status_Error InvalidArgument ''app_id is required'')), w)"
    by (simp add: serverAPI_Login_def emptyValue_def)
next
  show "prefix [UserProvider_UserByEmail email]
          (new_calls w (snd (Auth_Login p a email password 0 w)))"
    by (auto simp: Auth_Login_def invoke_def new_calls_def split: prod.splits option.splits)
next
  show "UserByEmail a email (store w) = ((u0, Some e0), s0)
        \<and> errors_Is e0 storage_ErrUserNotFound
      \<longrightarrow> Auth_Login p a email password 0 w
            = (('''', Some (wrapError ''Auth.Login'' ErrInvalidCredentials)),
               \<lparr>store = s0, calls = calls w @ [UserProvider_UserByEmail email]\<rparr>)"
    by (simp add: Auth_Login_def invoke_def)
next
  show "UserByEmail a email (store w) = ((u, None), s1)
        \<and> CompareHashAndPassword p (PassHash u) password = None
      \<longrightarrow> prefix [UserProvider_UserByEmail email,
                  bcrypt_CompareHashAndPassword (PassHash u) password,
                  AppProvider_App 0]
             (new_calls w (snd (Auth_Login p a email password 0 w)))"
    by (auto simp: Auth_Login_def invoke_def new_calls_def split: prod.splits option.splits)
next
  show "UserByEmail a email (store w) = ((u, None), s1)
        \<and> CompareHashAndPassword p (PassHash u) password = None
        \<and> App a 0 s1 = ((ap, None), s2)
        \<and> NewToken p u ap (tokenTTL a) s2 = ((token, None), s3)
      \<longrightarrow> Auth_Login p a email password 0 w
            = ((token, None),
               \<lparr>store = s3,
                calls = calls w @ [UserProvider_UserByEmail email,
                                   bcrypt_CompareHashAndPassword (PassHash u) password,
                                   AppProvider_App 0,
                                   jwt_NewToken u ap (tokenTTL a)]\<rparr>)"
    by (simp add: Auth_Login_def invoke_def)
qed

text \<open>
  The theorem at concrete inputs: the adapter's answer to a request with app_id 0, and
  the engine's Login called with appID 0 over a registry that resolves every identifier.
\<close>

theorem Login_empty_app_id_rejected_by_adapter_only_witness:
  "serverAPI_Login demo_pkgs demo_Auth
      \<lparr>GetEmail = ''a@x.com'', GetPassword = ''secret1'', GetAppId = 0\<rparr> w_init
     = ((None, Some (status_Error InvalidArgument ''app_id is required'')), w_init)
   \<and> Auth_Login demo_pkgs (demo_Auth\<lparr>App := \<lambda>appID s. ((demo_app, None), s)\<rparr>)
        ''a@x.com'' ''secret1'' 0 w_init
     = ((''token'', None),
        \<lparr>store = (),
         calls = calls w_init @ [UserProvider_UserByEmail ''a@x.com'',
                   bcrypt_CompareHashAndPassword (PassHash demo_user) ''secret1'',
                   AppProvider_App 0,
                   jwt_NewToken demo_user demo_app
                     (tokenTTL (demo_Auth\<lparr>App := \<lambda>appID s. ((demo_app, None), s)\<rparr>))]\<rparr>)"
proof -
  have h1: "GetAppId \<lparr>GetEmail = ''a@x.com'', GetPassword = ''secret1'', GetAppId = 0\<rparr> = 0
            \<and> GetEmail \<lparr>GetEmail = ''a@x.com'', GetPassword = ''secret1'', GetAppId = 0\<rparr>
                \<noteq> ''''
            \<and> GetPassword \<lparr>GetEmail = ''a@x.com'', GetPassword = ''secret1'', GetAppId = 0\<rparr>
                \<noteq> ''''"
    by simp
  have h2: "UserByEmail (demo_Auth\<lparr>App := \<lambda>appID s. ((demo_app, None), s)\<rparr>) ''a@x.com''
              (store w_init) = ((demo_user, None), ())
            \<and> CompareHashAndPassword demo_pkgs (PassHash demo_user) ''secret1'' = None
            \<and> App (demo_Auth\<lparr>App := \<lambda>appID s. ((demo_app, None), s)\<rparr>) 0 ()
                = ((demo_app, None), ())
            \<and> NewToken demo_pkgs demo_user demo_app
                (tokenTTL (demo_Auth\<lparr>App := \<lambda>appID s. ((demo_app, None), s)\<rparr>)) ()
                = ((''token'', None), ())"
    by (simp add: demo_Auth_def demo_pkgs_def demo_user_def)
  from h1 Login_empty_app_id_rejected_by_adapter_only
            [where req = "\<lparr>GetEmail = ''a@x.com'', GetPassword = ''secret1'', GetAppId = 0\<rparr>"
               and p = demo_pkgs and a = demo_Auth and w = w_init]
  have r1: "serverAPI_Login demo_pkgs demo_Auth
      \<lparr>GetEmail = ''a@x.com'', GetPassword = ''secret1'', GetAppId = 0\<rparr> w_init
     = ((None, Some (status_Error InvalidArgument ''app_id is required'')), w_init)"
    by blast
  from h2 Login_empty_app_id_rejected_by_adapter_only
            [where p = demo_pkgs and a = "demo_Auth\<lparr>App := \<lambda>appID s. ((demo_app, None), s)\<rparr>"
               and w = w_init and email = "''a@x.com''" and password = "''secret1''"
               and u = demo_user and ?s1.0 = "()" and ap = demo_app and ?s2.0 = "()"
               and token = "''token''" and ?s3.0 = "()"]
  have r2: "Auth_Login demo_pkgs (demo_Auth\<lparr>App := \<lambda>appID s. ((demo_app, None), s)\<rparr>)
        ''a@x.com'' ''secret1'' 0 w_init
     = ((''token'', None),
        \<lparr>store = (),
         calls = calls w_init @ [UserProvider_UserByEmail ''a@x.com'',
                   bcrypt_CompareHashAndPassword (PassHash demo_user) ''secret1'',
                   AppProvider_App 0,
                   jwt_NewToken demo_user demo_app
                     (tokenTTL (demo_Auth\<lparr>App := \<lambda>appID s. ((demo_app, None), s)\<rparr>))]\<rparr>)"
    by blast
  from r1 r2 show ?thesis by (rule conjI)
qed

text \<open>
  The engine's Login called with appID 0 and an email the store does not know: the store
  is consulted first, and the failure is \<open>ErrInvalidCredentials\<close>, not an invalid-app
  error.
\<close>

theorem Auth_Login_app_id_zero_looks_up_user:
  "snd (fst (Auth_Login demo_pkgs demo_Auth ''b@x.com'' ''secret1'' 0 w_init))
     = Some (wrapError ''Auth.Login'' ErrInvalidCredentials)
   \<and> \<not> errors_Is (wrapError ''Auth.Login'' ErrInvalidCredentials) ErrInvalidAppID
   \<and> \<not> errors_Is (wrapError ''Auth.Login'' ErrInvalidCredentials) storage_ErrAppNotFound
   \<and> calls (snd (Auth_Login demo_pkgs demo_Auth ''b@x.com'' ''secret1'' 0 w_init))
     = [UserProvider_UserByEmail ''b@x.com'']"
  by (simp add: Auth_Login_def invoke_def demo_Auth_def w_init_def)

section \<open>RegisterNewUser\<close>

text \<open>
  C5. After the password has been hashed, RegisterNewUser saves the user. When the store
  reports the UserExists condition, the operation fails with \<open>ErrUserExists\<close>; when the
  store saves the user, the operation returns exactly the identifier the store returned,
  and no error.
\<close>

theorem RegisterNewUser_exists_or_store_id:
  assumes "GenerateFromPassword p pass DefaultCost (store w) = ((h, None), s1)"
  shows "(SaveUser a email h s1 = ((i, Some err), s2) \<and> errors_Is err storage_ErrUserExists
            \<longrightarrow> fst (Auth_RegisterNewUser p a email pass w)
                  = (NilObjectID, Some (wrapError ''auth.RegisterNewUser'' ErrUserExists)))
       \<and> (SaveUser a email h s1 = ((i, None), s2)
            \<longrightarrow> fst (Auth_RegisterNewUser p a email pass w) = (i, None))"
  using assms by (simp add: Auth_RegisterNewUser_def invoke_def)

theorem RegisterNewUser_exists_or_store_id_witness:
  "fst (Auth_RegisterNewUser demo_pkgs demo_Auth ''a@x.com'' ''other'' w_init)
     = (NilObjectID, Some (wrapError ''auth.RegisterNewUser'' ErrUserExists))
   \<and> fst (Auth_RegisterNewUser demo_pkgs demo_Auth ''c@x.com'' ''other'' w_init)
     = (replicate 12 2, None)"
proof -
  have g: "GenerateFromPassword demo_pkgs ''other'' DefaultCost (store w_init)
             = ((''other'', None), ())"
    by (simp add: demo_pkgs_def)
  have s1: "SaveUser demo_Auth ''a@x.com'' ''other'' ()
              = ((NilObjectID,
                  Some (wrapError ''storage.mongodb.SaveUser'' storage_ErrUserExists)), ())
            \<and> errors_Is (wrapError ''storage.mongodb.SaveUser'' storage_ErrUserExists)
                storage_ErrUserExists"
    by (simp add: demo_Auth_def)
  have s2: "SaveUser demo_Auth ''c@x.com'' ''other'' () = ((replicate 12 2, None), ())"
    by (simp add: demo_Auth_def)
  from s1 RegisterNewUser_exists_or_store_id
            [OF g, where a = demo_Auth and email = "''a@x.com''" and i = NilObjectID
               and err = "wrapError ''storage.mongodb.SaveUser'' storage_ErrUserExists"
               and ?s2.0 = "()"]
  have r1: "fst (Auth_RegisterNewUser demo_pkgs demo_Auth ''a@x.com'' ''other'' w_init)
              = (NilObjectID, Some (wrapError ''auth.RegisterNewUser'' ErrUserExists))"
    by blast
  from s2 RegisterNewUser_exists_or_store_id
            [OF g, where a = demo_Auth and email = "''c@x.com''" and i = "replicate 12 2"
               and ?s2.0 = "()"]
  have r2: "fst (Auth_RegisterNewUser demo_pkgs demo_Auth ''c@x.com'' ''other'' w_init)
              = (replicate 12 2, None)"
    by blast
  from r1 r2 show ?thesis by (rule conjI)
qed

text \<open>
  The store's SaveUser reports the UserExists condition when the driver's error is a
  write exception with a write error of code 11000, and returns the driver's identifier
  when the insertion succeeds.
\<close>

lemma has_duplicate_key_iff: "has_duplicate_key wes \<longleftrightarrow> (\<exists>we \<in> set wes. Code we = 11000)"
  by (induction wes) auto

lemma Storage_SaveUser_duplicate_key:
  assumes "InsertOne \<lparr>ID = NilObjectID, Email = email, PassHash = h\<rparr> s0
             = ((i, Some (WriteException wes txt)), s1)"
      and "we \<in> set wes" and "Code we = 11000"
  shows "\<exists>err. Storage_SaveUser InsertOne email h s0 = Some ((NilObjectID, Some err), s1)
              \<and> errors_Is err storage_ErrUserExists"
  using assms has_duplicate_key_iff [of wes]
  by (auto simp: Storage_SaveUser_def split: InsertedID.splits)

lemma Storage_SaveUser_inserted:
  assumes "InsertOne \<lparr>ID = NilObjectID, Email = email, PassHash = h\<rparr> s0
             = ((id_ObjectID oid, None), s1)"
  shows "Storage_SaveUser InsertOne email h s0 = Some ((oid, None), s1)"
  using assms by (simp add: Storage_SaveUser_def)

text \<open>
  C9. Whenever RegisterNewUser returns an error, the identifier it returns is
  \<open>NilObjectID\<close>.
\<close>

theorem RegisterNewUser_error_returns_nil_id:
  assumes "snd (fst (Auth_RegisterNewUser p a email pass w)) \<noteq> None"
  shows "fst (fst (Auth_RegisterNewUser p a email pass w)) = NilObjectID"
  using assms
  by (auto simp: Auth_RegisterNewUser_def invoke_def split: prod.splits option.splits if_splits)

theorem RegisterNewUser_error_returns_nil_id_witness:
  "snd (fst (Auth_RegisterNewUser demo_pkgs demo_Auth ''a@x.com'' ''other'' w_init)) \<noteq> None
   \<and> fst (fst (Auth_RegisterNewUser demo_pkgs demo_Auth ''a@x.com'' ''other'' w_init))
       = NilObjectID"
proof -
  have h: "snd (fst (Auth_RegisterNewUser demo_pkgs demo_Auth ''a@x.com'' ''other'' w_init))
             \<noteq> None"
    by (simp add: Auth_RegisterNewUser_def invoke_def demo_Auth_def demo_pkgs_def w_init_def)
  from h RegisterNewUser_error_returns_nil_id [OF h] show ?thesis by (rule conjI)
qed

section \<open>IsAdmin\<close>

text \<open>
  C6. Whenever the store's IsAdmin returns an error, whatever the error is (the not-found
  condition included), the engine's IsAdmin returns \<open>false\<close> and \<open>ErrInvalidAppID\<close>
  wrapped with the operation name.
\<close>

theorem IsAdmin_store_failure_is_invalid_app:
  assumes "IsAdmin a userID (store w) = ((b, Some err), s1)"
  shows "fst (Auth_IsAdmin a userID w)
           = (False, Some (wrapError ''auth.IsAdmin'' ErrInvalidAppID))"
  using assms by (simp add: Auth_IsAdmin_def invoke_def)

theorem IsAdmin_store_failure_is_invalid_app_witness:
  "fst (Auth_IsAdmin demo_Auth (replicate 12 9) w_init)
     = (False, Some (wrapError ''auth.IsAdmin'' ErrInvalidAppID))"
proof -
  have h: "IsAdmin demo_Auth (replicate 12 9) (store w_init)
             = ((False, Some (wrapError ''storage.mongodb.IsAdmin'' storage_ErrUserNotFound)),
                ())"
    by (simp add: demo_Auth_def)
  show ?thesis by (rule IsAdmin_store_failure_is_invalid_app [OF h])
qed

text \<open>
  C10. The transport adapter's IsAdmin rejects a request whose user_id is the hex
  encoding of \<open>NilObjectID\<close>, or is not the hex encoding of an ObjectID, with an
  invalid-argument status, and leaves the world as it was: the engine's IsAdmin is not
  called.
\<close>

theorem serverAPI_IsAdmin_rejects_bad_user_id:
  assumes "GetUserId req = Hex p NilObjectID
           \<or> snd (ObjectIDFromHex p (GetUserId req)) \<noteq> None"
  shows "\<exists>msg. serverAPI_IsAdmin p a req w
           = ((None, Some (status_Error InvalidArgument msg)), w)"
  using assms by (auto simp: serverAPI_IsAdmin_def split: prod.splits option.splits)

theorem serverAPI_IsAdmin_rejects_bad_user_id_witness:
  "(\<exists>msg. serverAPI_IsAdmin demo_pkgs demo_Auth \<lparr>GetUserId = ''000000000000000000000000''\<rparr> w_init
            = ((None, Some (status_Error InvalidArgument msg)), w_init))
   \<and> (\<exists>msg. serverAPI_IsAdmin demo_pkgs demo_Auth \<lparr>GetUserId = ''zz''\<rparr> w_init
            = ((None, Some (status_Error InvalidArgument msg)), w_init))"
proof -
  have h1: "GetUserId \<lparr>GetUserId = ''000000000000000000000000''\<rparr> = Hex demo_pkgs NilObjectID
            \<or> snd (ObjectIDFromHex demo_pkgs (GetUserId \<lparr>GetUserId = ''000000000000000000000000''\<rparr>))
                \<noteq> None"
    by (simp add: demo_pkgs_def)
  have h2: "GetUserId \<lparr>GetUserId = ''zz''\<rparr> = Hex demo_pkgs NilObjectID
            \<or> snd (ObjectIDFromHex demo_pkgs (GetUserId \<lparr>GetUserId = ''zz''\<rparr>)) \<noteq> None"
    by (simp add: demo_pkgs_def)
  from serverAPI_IsAdmin_rejects_bad_user_id [OF h1]
       serverAPI_IsAdmin_rejects_bad_user_id [OF h2]
  show ?thesis by (rule conjI)
qed

end
